theory Spec2Isabelle
  imports Main
begin

section \<open>Values, CSS fragments and the descriptor protocol\<close>

text \<open>
  A JavaScript value of a union type \<open>T | null | undefined | false\<close>. The source declares
  \<^verbatim>\<open>type Blank = null | undefined | false\<close>; the entries a spec callback returns have
  type \<^verbatim>\<open>Blank | Internal\<close>, and the list built inside \<^verbatim>\<open>commonSpec\<close> has type
  \<^verbatim>\<open>(string | null)[]\<close>.
\<close>

datatype 'a js = JNull | JUndefined | JFalse | JVal (jval: 'a)

text \<open>
  A CSS fragment (\<^verbatim>\<open>CSSObject\<close> of the styling runtime): property names, in insertion
  order, with a string, a number or a nested fragment as value.
\<close>

datatype cssval = CssString string | CssNumber int | CssNested "(string \<times> cssval) list"

type_synonym CSSObject = "(string \<times> cssval) list"

text \<open>
  Modelled from the spec: the module \<^verbatim>\<open>builders/internal\<close> (\<^verbatim>\<open>Context\<close>,
  \<^verbatim>\<open>Internal\<close>, \<^verbatim>\<open>internal\<close>, \<^verbatim>\<open>createInternal\<close>,
  \<^verbatim>\<open>__DO_NOT_USE_GET_INTERNAL__\<close>) is not among the sources. The Context is a mapping
  from coordination keys to values; a key may be absent, or present with the value
  \<^verbatim>\<open>undefined\<close> or a boolean flag. A descriptor carries its projection function (read by
  the resolver as \<^verbatim>\<open>.operation\<close>) and its context contribution (read as
  \<^verbatim>\<open>.context\<close>), which is the empty mapping when the creator supplied none.
\<close>

datatype ctxval = CUndefined | CBool bool

type_synonym Context = "string \<rightharpoonup> ctxval"

datatype Internal = Internal (operation: "Context \<Rightarrow> CSSObject") (context_of: Context)

definition internal :: "(Context \<Rightarrow> CSSObject) \<Rightarrow> Context \<Rightarrow> Internal" where
  "internal op c = Internal op c"

definition createInternal :: "(Context \<Rightarrow> CSSObject) \<Rightarrow> Internal" where
  "createInternal toCSS = Internal toCSS Map.empty"

text \<open>
  Modelled from the spec: \<^verbatim>\<open>isPresent\<close> of \<^verbatim>\<open>./util\<close> is not among the sources; a
  value is present when it is neither \<^verbatim>\<open>null\<close> nor \<^verbatim>\<open>undefined\<close>.
\<close>

definition isPresent :: "'a js \<Rightarrow> bool" where
  "isPresent v = (v \<noteq> JNull \<and> v \<noteq> JUndefined)"

text \<open>
  Modelled from the spec: \<^verbatim>\<open>px\<close> of the utils package is not among the sources; it is the
  single unit-formatting rule, the decimal numeral of the token followed by \<^verbatim>\<open>px\<close>.
  Tokens are integers here.
\<close>

fun digits :: "nat \<Rightarrow> string" where
  "digits n =
     (if n < 10 then [char_of (48 + n)]
      else digits (n div 10) @ [char_of (48 + n mod 10)])"

declare digits.simps [simp del]

definition px :: "int \<Rightarrow> string" where
  "px v = (if v < 0 then ''-'' else '''') @ digits (nat \<bar>v\<bar>) @ ''px''"

section \<open>builders/borderRadius.ts\<close>

text \<open>The theme: the \<^verbatim>\<open>borderRadius\<close> category, the other categories in the extension.\<close>

record Theme =
  borderRadius :: "string \<Rightarrow> int"

definition createBorderRadiusCss :: "'z Theme_scheme \<Rightarrow> string \<Rightarrow> Internal" where
  "createBorderRadiusCss theme size' =
     createInternal (\<lambda>_. [(''borderRadius'', CssString (px (Theme.borderRadius theme size')))])"

section \<open>index.ts\<close>

text \<open>
  The object \<^verbatim>\<open>o\<close> handed to the spec callback. \<^verbatim>\<open>builder\<close> assigns the objects of the
  colour, typography, spacing, size, element-effect, border and outline builders, which are
  not among the sources, and \<^verbatim>\<open>borderRadiusObject\<close>; the former are the extension
  \<open>rest theme\<close>. The call at run time leaves \<^verbatim>\<open>isPhantom\<close> at its default, false.
\<close>

record O =
  borderRadius :: "string \<Rightarrow> Internal"

definition builder :: "('z Theme_scheme \<Rightarrow> 'r) \<Rightarrow> 'z Theme_scheme \<Rightarrow> 'r O_scheme" where
  "builder rest theme =
     \<lparr> borderRadius = (\<lambda>radius. createBorderRadiusCss theme radius), \<dots> = rest theme \<rparr>"

text \<open>\<^verbatim>\<open>Array.prototype.join\<close>.\<close>

fun join :: "string \<Rightarrow> string list \<Rightarrow> string" where
  "join sep [] = []"
| "join sep [x] = x"
| "join sep (x # y # ys) = x @ sep @ join sep (y # ys)"

definition transition :: "string \<Rightarrow> string list \<Rightarrow> CSSObject" where
  "transition duration property =
     [(''transition'', CssString (join '', '' (map (\<lambda>v. duration @ '' '' @ v) property)))]"

text \<open>
  The destructuring \<^verbatim>\<open>({ colorTransition = false, ... })\<close>: the default applies when the key
  is absent or holds \<^verbatim>\<open>undefined\<close>.
\<close>

definition flagOrFalse :: "Context \<Rightarrow> string \<Rightarrow> bool" where
  "flagOrFalse c k = (case c k of None \<Rightarrow> False | Some CUndefined \<Rightarrow> False | Some (CBool b) \<Rightarrow> b)"

text \<open>
  \<^verbatim>\<open>commonSpec\<close>. \<open>duration\<close> is the string \<^verbatim>\<open>dur(TRANSITION_DURATION)\<close>, whose two
  parts are imported from modules that are not among the sources. \<^verbatim>\<open>internal\<close> is called
  without a context, which is then the empty mapping.
\<close>

definition commonSpec :: "string \<Rightarrow> 'theme \<Rightarrow> Internal" where
  "commonSpec duration theme =
     internal
       (\<lambda>c. transition duration
          (map jval (filter isPresent
            [ if flagOrFalse c ''colorTransition'' then JVal ''color'' else JNull,
              if flagOrFalse c ''backgroundColorTransition'' then JVal ''background-color'' else JNull,
              if flagOrFalse c ''boxShadowTransition'' then JVal ''box-shadow'' else JNull ])))
       Map.empty"

definition nonBlank :: "'a js \<Rightarrow> bool" where
  "nonBlank v = (isPresent v \<and> v \<noteq> JFalse)"

text \<open>What a spec callback returns: \<^verbatim>\<open>Blank | Internal | (Blank | Internal)[]\<close>.\<close>

datatype rawSpec = Bare "Internal js" | Arr "Internal js list"

text \<open>\<^verbatim>\<open>Array.isArray(rawSpecDescriptor) ? rawSpecDescriptor : [rawSpecDescriptor]\<close>.\<close>

fun asArray :: "rawSpec \<Rightarrow> Internal js list" where
  "asArray (Arr xs) = xs"
| "asArray (Bare x) = [x]"

text \<open>
  The constant \<^verbatim>\<open>specDescriptor\<close>: the entries, then the implicit descriptor, filtered.
  \<^verbatim>\<open>nonBlank\<close> and \<^verbatim>\<open>isPresent\<close> are type guards: what passes \<^verbatim>\<open>filter\<close> is read at the
  narrowed type, here by \<open>jval\<close>.
\<close>

definition specDescriptor :: "string \<Rightarrow> 'theme \<Rightarrow> rawSpec \<Rightarrow> Internal list" where
  "specDescriptor duration theme rawSpecDescriptor =
     map jval (filter nonBlank (asArray rawSpecDescriptor @ [JVal (commonSpec duration theme)]))"

text \<open>The first pass: \<^verbatim>\<open>reduce((acc, v) => ({ ...acc, ...v.context }), {})\<close>.\<close>

definition collectContext :: "Internal list \<Rightarrow> Context" where
  "collectContext ds = foldl (\<lambda>acc v. acc ++ context_of v) Map.empty ds"

datatype error = noThemeProvider

text \<open>
  \<^verbatim>\<open>createTheme(_styled)(spec)({ theme })\<close>, with \<open>theme: T | undefined\<close> as an option,
  so that \<^verbatim>\<open>!isPresent(theme)\<close> is the case \<open>None\<close>. \<^verbatim>\<open>_styled\<close> and
  \<^verbatim>\<open>_phantomBuilder\<close> serve type inference only. The error \<^verbatim>\<open>noThemeProvider\<close> is the
  spec's MissingThemeProvider. The callback's argument \<^verbatim>\<open>o\<close> is written \<open>ob\<close> below.
\<close>

definition createTheme ::
  "string \<Rightarrow> ('z Theme_scheme \<Rightarrow> 'r) \<Rightarrow> ('r O_scheme \<Rightarrow> rawSpec) \<Rightarrow> 'z Theme_scheme option
     \<Rightarrow> error + CSSObject list" where
  "createTheme duration rest spec theme =
     (case theme of
        None \<Rightarrow> Inl noThemeProvider
      | Some t \<Rightarrow>
          (let rawSpecDescriptor = spec (builder rest t);
               ds = specDescriptor duration t rawSpecDescriptor;
               c = collectContext ds
           in Inr (map (\<lambda>v. operation v c) ds)))"

section \<open>The colour accessor of the coupling example\<close>

text \<open>
  Modelled from the spec: the colour builder (\<^verbatim>\<open>builders/colors\<close>) is not among the sources.
  By the spec, a component author writing \<^verbatim>\<open>o.bg.surface3.hover\<close> causes the transition rule
  to include \<^verbatim>\<open>background-color\<close>, through the flag \<^verbatim>\<open>backgroundColorTransition\<close> of the
  descriptor's own context contribution. The fragment the accessor renders is the colour
  formula of the absent builder, the parameter \<open>toCSS\<close>.
\<close>

record Colors =
  bg_surface3_hover :: Internal

definition colors :: "('z Theme_scheme \<Rightarrow> Context \<Rightarrow> CSSObject) \<Rightarrow> 'z Theme_scheme \<Rightarrow> Colors" where
  "colors toCSS theme =
     \<lparr> bg_surface3_hover = internal (toCSS theme) [''backgroundColorTransition'' \<mapsto> CBool True] \<rparr>"

section \<open>The specification's wording\<close>

text \<open>Dropping blanks: the descriptors of a list of entries, in their order.\<close>

fun dropBlanks :: "'a js list \<Rightarrow> 'a list" where
  "dropBlanks [] = []"
| "dropBlanks (JVal v # xs) = v # dropBlanks xs"
| "dropBlanks (JNull # xs) = dropBlanks xs"
| "dropBlanks (JUndefined # xs) = dropBlanks xs"
| "dropBlanks (JFalse # xs) = dropBlanks xs"

text \<open>
  The properties of the implicit transition: those of \<^verbatim>\<open>color\<close>, \<^verbatim>\<open>background-color\<close>,
  \<^verbatim>\<open>box-shadow\<close> whose flag is true in the Context.
\<close>

definition requestedProperties :: "Context \<Rightarrow> string list" where
  "requestedProperties c =
     [p. (k, p) \<leftarrow> [(''colorTransition'', ''color''),
                    (''backgroundColorTransition'', ''background-color''),
                    (''boxShadowTransition'', ''box-shadow'')],
         c k = Some (CBool True)]"

text \<open>A blank entry: \<^verbatim>\<open>null\<close>, \<^verbatim>\<open>undefined\<close> or \<^verbatim>\<open>false\<close>.\<close>

fun isBlank :: "'a js \<Rightarrow> bool" where
  "isBlank (JVal v) = False"
| "isBlank JNull = True"
| "isBlank JUndefined = True"
| "isBlank JFalse = True"

section \<open>Auxiliary facts\<close>

lemma filter_nonBlank_dropBlanks: "map jval (filter nonBlank xs) = dropBlanks xs"
  by (induction xs rule: dropBlanks.induct) (simp_all add: nonBlank_def isPresent_def)

lemma specDescriptor_append:
  "specDescriptor duration theme raw = dropBlanks (asArray raw) @ [commonSpec duration theme]"
  by (simp add: specDescriptor_def nonBlank_def isPresent_def filter_nonBlank_dropBlanks)

lemma collectContext_Nil: "collectContext [] = Map.empty"
  by (simp add: collectContext_def)

lemma collectContext_snoc: "collectContext (ds @ [d]) = collectContext ds ++ context_of d"
  by (simp add: collectContext_def)

lemma context_of_commonSpec: "context_of (commonSpec duration theme) = Map.empty"
  by (simp add: commonSpec_def internal_def)

lemma collectContext_specDescriptor:
  "collectContext (specDescriptor duration theme raw) = collectContext (dropBlanks (asArray raw))"
  by (simp add: specDescriptor_append collectContext_snoc context_of_commonSpec)

lemma foldl_map_add_start:
  "foldl (\<lambda>acc v. acc ++ context_of v) m ds = m ++ foldl (\<lambda>acc v. acc ++ context_of v) Map.empty ds"
proof (induction ds arbitrary: m)
  case Nil
  show ?case by simp
next
  case (Cons d ds)
  have "foldl (\<lambda>acc v. acc ++ context_of v) m (d # ds)
        = (m ++ context_of d) ++ foldl (\<lambda>acc v. acc ++ context_of v) Map.empty ds"
    using Cons.IH [of "m ++ context_of d"] by simp
  also have "\<dots> = m ++ foldl (\<lambda>acc v. acc ++ context_of v) Map.empty (d # ds)"
    using Cons.IH [of "context_of d"] by simp
  finally show ?case .
qed

lemma collectContext_append:
  "collectContext (ds @ ds') = collectContext ds ++ collectContext ds'"
  unfolding collectContext_def foldl_append by (rule foldl_map_add_start)

lemma collectContext_Cons:
  "collectContext (d # ds) = context_of d ++ collectContext ds"
  using collectContext_append [of "[d]" ds] by (simp add: collectContext_def)

lemma collectContext_absent:
  "(\<forall>d \<in> set ds. context_of d k = None) \<Longrightarrow> collectContext ds k = None"
  by (induction ds) (simp_all add: collectContext_Nil collectContext_Cons)

lemma operation_commonSpec:
  "operation (commonSpec duration theme) c = transition duration (requestedProperties c)"
  by (simp add: commonSpec_def internal_def requestedProperties_def isPresent_def flagOrFalse_def
      split: option.split ctxval.split)

lemma createTheme_Some:
  "createTheme duration rest spec (Some theme) =
     Inr (map (\<lambda>v. operation v (collectContext (dropBlanks (asArray (spec (builder rest theme))))))
            (dropBlanks (asArray (spec (builder rest theme))))
          @ [transition duration
               (requestedProperties (collectContext (dropBlanks (asArray (spec (builder rest theme))))))])"
  by (simp add: createTheme_def Let_def specDescriptor_append collectContext_snoc
      context_of_commonSpec operation_commonSpec)

lemma dropBlanks_blank: "(\<forall>e \<in> set xs. isBlank e) \<Longrightarrow> dropBlanks xs = []"
  by (induction xs rule: dropBlanks.induct) simp_all

lemma px_8: "px 8 = ''8px''"
  by code_simp

section \<open>The claims\<close>

text \<open>
  C1. The shared Context is the left-to-right fold of the descriptors' context contributions
  by shallow merge, starting from the empty mapping: a contribution of a descriptor for a
  key replaces what the earlier descriptors gave, so the value of the last descriptor that
  sets a key is the value of the final Context, and the fragments are rendered with that
  Context. In particular two descriptors contributing \<^verbatim>\<open>{colorTransition: true}\<close> then
  \<^verbatim>\<open>{colorTransition: false}\<close> leave the implicit transition fragment without
  \<^verbatim>\<open>color\<close>: its transition list is empty.
\<close>

theorem context_last_write_wins:
  "collectContext [] = Map.empty
   \<and> collectContext (ds @ [d]) = collectContext ds ++ context_of d
   \<and> (collectContext ds ++ context_of d) k
       = (case context_of d k of None \<Rightarrow> collectContext ds k | Some v \<Rightarrow> Some v)
   \<and> (context_of d k = Some v \<and> (\<forall>d' \<in> set ds'. context_of d' k = None)
        \<longrightarrow> collectContext (ds @ d # ds') k = Some v)
   \<and> createTheme duration rest spec (Some theme)
       = Inr (map (\<lambda>x. operation x
                    (collectContext (specDescriptor duration theme (spec (builder rest theme)))))
               (specDescriptor duration theme (spec (builder rest theme))))
   \<and> createTheme duration rest
        (\<lambda>ob. Arr [JVal (internal op1 [''colorTransition'' \<mapsto> CBool True]),
                  JVal (internal op2 [''colorTransition'' \<mapsto> CBool False])])
        (Some theme)
       = Inr [op1 [''colorTransition'' \<mapsto> CBool False],
              op2 [''colorTransition'' \<mapsto> CBool False],
              [(''transition'', CssString '''')]]"
proof -
  have fold_step: "collectContext (ds @ [d]) = collectContext ds ++ context_of d"
    by (rule collectContext_snoc)
  have lookup: "(collectContext ds ++ context_of d) k
       = (case context_of d k of None \<Rightarrow> collectContext ds k | Some v \<Rightarrow> Some v)"
    by (simp add: map_add_def)
  have later: "collectContext (ds @ d # ds') k = Some v"
    if "context_of d k = Some v" and "\<forall>d' \<in> set ds'. context_of d' k = None"
  proof -
    have "collectContext (ds @ d # ds') = collectContext ds ++ (context_of d ++ collectContext ds')"
      by (simp only: collectContext_append collectContext_Cons)
    moreover have "collectContext ds' k = None"
      using that(2) by (rule collectContext_absent)
    ultimately show ?thesis
      using that(1) by (simp add: map_add_def)
  qed
  have pipeline: "createTheme duration rest spec (Some theme)
       = Inr (map (\<lambda>x. operation x
                    (collectContext (specDescriptor duration theme (spec (builder rest theme)))))
               (specDescriptor duration theme (spec (builder rest theme))))"
    by (simp add: createTheme_def Let_def)
  have example: "createTheme duration rest
        (\<lambda>ob. Arr [JVal (internal op1 [''colorTransition'' \<mapsto> CBool True]),
                  JVal (internal op2 [''colorTransition'' \<mapsto> CBool False])])
        (Some theme)
       = Inr [op1 [''colorTransition'' \<mapsto> CBool False],
              op2 [''colorTransition'' \<mapsto> CBool False],
              [(''transition'', CssString '''')]]"
    by (simp add: createTheme_Some collectContext_Cons collectContext_Nil internal_def
        requestedProperties_def transition_def)
  show ?thesis
    using fold_step lookup later pipeline example by (simp only: collectContext_Nil) blast
qed

theorem context_last_write_wins_witness:
  "context_of (Internal (\<lambda>_. []) [''colorTransition'' \<mapsto> CBool False]) ''colorTransition''
     = Some (CBool False)
   \<and> context_of (Internal (\<lambda>_. []) Map.empty) ''colorTransition'' = None
   \<and> collectContext
        ([Internal (\<lambda>_. []) [''colorTransition'' \<mapsto> CBool True]]
         @ Internal (\<lambda>_. []) [''colorTransition'' \<mapsto> CBool False]
         # [Internal (\<lambda>_. []) Map.empty]) ''colorTransition''
       = Some (CBool False)"
  using context_last_write_wins
    [where ds = "[Internal (\<lambda>_. []) [''colorTransition'' \<mapsto> CBool True]]"
       and d = "Internal (\<lambda>_. []) [''colorTransition'' \<mapsto> CBool False]"
       and k = "''colorTransition''" and v = "CBool False"
       and ds' = "[Internal (\<lambda>_. []) Map.empty]"
       and duration = "''0.2s''" and rest = "\<lambda>_ :: unit Theme_scheme. ()"
       and spec = "\<lambda>_. Arr []" and theme = "\<lparr> Theme.borderRadius = \<lambda>_. 0 \<rparr>"
       and ?op1.0 = "\<lambda>_. []" and ?op2.0 = "\<lambda>_. []"]
  by simp

text \<open>
  C2. The normalized descriptor sequence is the user's descriptors followed by exactly one
  implicit transition descriptor, its last element. That descriptor renders a single
  \<^verbatim>\<open>transition\<close> property, whose value lists, each after the duration and joined by a comma,
  exactly those of \<^verbatim>\<open>color\<close>, \<^verbatim>\<open>background-color\<close>, \<^verbatim>\<open>box-shadow\<close> whose flag is
  true in the Context it is given; a flag that no descriptor of the sequence set counts as
  false. The last fragment the resolver returns is that rendering over the final Context.
\<close>

theorem implicit_transition_descriptor:
  "specDescriptor duration theme raw = dropBlanks (asArray raw) @ [commonSpec duration theme]
   \<and> last (specDescriptor duration theme raw) = commonSpec duration theme
   \<and> length (specDescriptor duration theme raw) = Suc (length (dropBlanks (asArray raw)))
   \<and> operation (commonSpec duration theme) c
       = [(''transition'',
           CssString (join '', '' (map (\<lambda>p. duration @ '' '' @ p) (requestedProperties c))))]
   \<and> ((\<forall>d \<in> set (specDescriptor duration theme raw). context_of d k = None)
        \<longrightarrow> \<not> flagOrFalse (collectContext (specDescriptor duration theme raw)) k)
   \<and> (\<exists>fs. createTheme duration rest spec (Some theme)
         = Inr (fs @ [[(''transition'',
                CssString (join '', '' (map (\<lambda>p. duration @ '' '' @ p)
                  (requestedProperties
                    (collectContext
                      (specDescriptor duration theme (spec (builder rest theme))))))))]]))"
proof -
  have shape: "specDescriptor duration theme raw
      = dropBlanks (asArray raw) @ [commonSpec duration theme]"
    by (rule specDescriptor_append)
  have rendered: "operation (commonSpec duration theme) c
       = [(''transition'',
           CssString (join '', '' (map (\<lambda>p. duration @ '' '' @ p) (requestedProperties c))))]"
    by (simp add: operation_commonSpec transition_def)
  have default: "\<not> flagOrFalse (collectContext (specDescriptor duration theme raw)) k"
    if "\<forall>d \<in> set (specDescriptor duration theme raw). context_of d k = None"
  proof -
    have "collectContext (specDescriptor duration theme raw) k = None"
      using that by (rule collectContext_absent)
    then show ?thesis by (simp add: flagOrFalse_def)
  qed
  have pipeline: "\<exists>fs. createTheme duration rest spec (Some theme)
         = Inr (fs @ [[(''transition'',
                CssString (join '', '' (map (\<lambda>p. duration @ '' '' @ p)
                  (requestedProperties
                    (collectContext
                      (specDescriptor duration theme (spec (builder rest theme))))))))]])"
    by (simp add: createTheme_Some collectContext_specDescriptor transition_def)
  show ?thesis
    using rendered default pipeline by (simp only: shape) simp
qed

theorem implicit_transition_descriptor_witness:
  "context_of (commonSpec ''0.2s'' \<lparr> Theme.borderRadius = \<lambda>_. 0 \<rparr>) ''colorTransition'' = None
   \<and> specDescriptor ''0.2s'' \<lparr> Theme.borderRadius = \<lambda>_. 0 \<rparr> (Arr [JNull])
       = [commonSpec ''0.2s'' \<lparr> Theme.borderRadius = \<lambda>_. 0 \<rparr>]
   \<and> \<not> flagOrFalse
         (collectContext (specDescriptor ''0.2s'' \<lparr> Theme.borderRadius = \<lambda>_. 0 \<rparr> (Arr [JNull])))
         ''colorTransition''"
proof -
  note inst = implicit_transition_descriptor
    [where duration = "''0.2s''" and theme = "\<lparr> Theme.borderRadius = \<lambda>_. 0 \<rparr>"
       and raw = "Arr [JNull]" and k = "''colorTransition''" and c = Map.empty
       and rest = "\<lambda>_ :: unit Theme_scheme. ()" and spec = "\<lambda>_. Arr [JNull]"]
  have absent: "context_of (commonSpec ''0.2s'' \<lparr> Theme.borderRadius = \<lambda>_. 0 \<rparr>) ''colorTransition''
      = None"
    by (simp add: context_of_commonSpec)
  have shape: "specDescriptor ''0.2s'' \<lparr> Theme.borderRadius = \<lambda>_. 0 \<rparr> (Arr [JNull])
      = [commonSpec ''0.2s'' \<lparr> Theme.borderRadius = \<lambda>_. 0 \<rparr>]"
    using inst by simp
  have "\<forall>d \<in> set (specDescriptor ''0.2s'' \<lparr> Theme.borderRadius = \<lambda>_. 0 \<rparr> (Arr [JNull])).
          context_of d ''colorTransition'' = None"
    by (simp add: shape absent)
  with inst have "\<not> flagOrFalse
         (collectContext (specDescriptor ''0.2s'' \<lparr> Theme.borderRadius = \<lambda>_. 0 \<rparr> (Arr [JNull])))
         ''colorTransition''"
    by blast
  with absent shape show ?thesis
    by blast
qed

text \<open>
  C3. For a spec returning \<^verbatim>\<open>[o.bg.surface3.hover]\<close> alone, the implicit transition
  fragment has the \<^verbatim>\<open>transition\<close> property with \<^verbatim>\<open>background-color\<close>: the contribution of
  the user's descriptor reaches the system descriptor through the Context.
\<close>

theorem cross_declaration_coupling:
  "createTheme duration (colors toCSS) (\<lambda>ob. Arr [JVal (bg_surface3_hover (O.more ob))])
     (Some theme)
   = Inr [toCSS theme [''backgroundColorTransition'' \<mapsto> CBool True],
          [(''transition'', CssString (duration @ '' background-color''))]]"
  by (simp add: createTheme_Some builder_def colors_def internal_def collectContext_Cons
      collectContext_Nil requestedProperties_def transition_def)

text \<open>
  C4. For a spec returning a list of entries, the result is the fragments of the entries that
  are descriptors, in their order, then the fragment of the implicit transition descriptor;
  \<^verbatim>\<open>[null, descriptorA, false, descriptorB, undefined]\<close> yields the fragments of
  descriptorA, of descriptorB and of the implicit descriptor.
\<close>

theorem blank_filtering:
  "createTheme duration rest (\<lambda>ob. Arr (es ob)) (Some theme)
     = Inr (map (\<lambda>d. operation d (collectContext (dropBlanks (es (builder rest theme)))))
              (dropBlanks (es (builder rest theme)))
            @ [operation (commonSpec duration theme)
                 (collectContext (dropBlanks (es (builder rest theme))))])
   \<and> createTheme duration rest
        (\<lambda>ob. Arr [JNull, JVal (descriptorA ob), JFalse, JVal (descriptorB ob), JUndefined])
        (Some theme)
     = Inr [operation (descriptorA (builder rest theme))
              (context_of (descriptorA (builder rest theme))
               ++ context_of (descriptorB (builder rest theme))),
            operation (descriptorB (builder rest theme))
              (context_of (descriptorA (builder rest theme))
               ++ context_of (descriptorB (builder rest theme))),
            operation (commonSpec duration theme)
              (context_of (descriptorA (builder rest theme))
               ++ context_of (descriptorB (builder rest theme)))]"
  by (simp add: createTheme_Some operation_commonSpec collectContext_Cons collectContext_Nil)

text \<open>
  C5. With a theme present the resolver returns a fragment list, which is the normalized
  descriptor sequence mapped in order through the rendering over the final Context: the two
  lists have the same length and the i-th fragment is the rendering of the i-th descriptor.
\<close>

theorem fragments_in_descriptor_order:
  "\<exists>fs. createTheme duration rest spec (Some theme) = Inr fs
     \<and> fs = map (\<lambda>d. operation d
                 (collectContext (specDescriptor duration theme (spec (builder rest theme)))))
              (specDescriptor duration theme (spec (builder rest theme)))
     \<and> length fs = length (specDescriptor duration theme (spec (builder rest theme)))
     \<and> (\<forall>i < length (specDescriptor duration theme (spec (builder rest theme))).
           fs ! i = operation (specDescriptor duration theme (spec (builder rest theme)) ! i)
                      (collectContext (specDescriptor duration theme (spec (builder rest theme)))))"
  by (simp add: createTheme_def Let_def)

theorem fragments_in_descriptor_order_witness:
  "\<exists>fs. createTheme ''0.2s'' (\<lambda>_ :: unit Theme_scheme. ())
          (\<lambda>ob. Arr [JVal (O.borderRadius ob ''x'')])
          (Some \<lparr> Theme.borderRadius = \<lambda>_. 8 \<rparr>) = Inr fs
     \<and> length fs = 2
     \<and> fs ! 0 = [(''borderRadius'', CssString ''8px'')]
     \<and> fs ! 1 = [(''transition'', CssString '''')]"
proof -
  let ?theme = "\<lparr> Theme.borderRadius = \<lambda>_. 8 \<rparr>"
  let ?rest = "\<lambda>_ :: unit Theme_scheme. ()"
  let ?spec = "\<lambda>ob :: unit O_scheme. Arr [JVal (O.borderRadius ob ''x'')]"
  let ?ds = "specDescriptor ''0.2s'' ?theme (?spec (builder ?rest ?theme))"
  have ds: "?ds = [createBorderRadiusCss ?theme ''x'', commonSpec ''0.2s'' ?theme]"
    by (simp add: specDescriptor_append builder_def)
  have c: "collectContext ?ds = Map.empty"
    by (simp add: ds collectContext_Cons collectContext_Nil context_of_commonSpec
        createBorderRadiusCss_def createInternal_def)
  obtain fs where fs: "createTheme ''0.2s'' ?rest ?spec (Some ?theme) = Inr fs"
      "length fs = length ?ds"
      "\<forall>i < length ?ds. fs ! i = operation (?ds ! i) (collectContext ?ds)"
    using fragments_in_descriptor_order [of "''0.2s''" ?rest ?spec ?theme] by blast
  have len: "length fs = 2"
    using fs(2) by (simp add: ds)
  have "fs ! 0 = operation (?ds ! 0) (collectContext ?ds)"
    using fs(3) by (simp add: ds)
  then have first: "fs ! 0 = [(''borderRadius'', CssString ''8px'')]"
    by (simp add: ds createBorderRadiusCss_def createInternal_def px_8)
  have "fs ! 1 = operation (?ds ! 1) (collectContext ?ds)"
    using fs(3) by (simp add: ds)
  then have second: "fs ! 1 = [(''transition'', CssString '''')]"
    by (simp add: ds c [unfolded ds] operation_commonSpec requestedProperties_def transition_def)
  from fs(1) len first second show ?thesis
    by blast
qed

text \<open>
  C6. With the theme absent the render-prop function raises \<^verbatim>\<open>noThemeProvider\<close>, whatever
  the spec callback and the builders are, and returns no fragment; with a theme present it
  returns a fragment list and does not raise that error.
\<close>

theorem missing_theme:
  "createTheme duration rest spec None = Inl noThemeProvider
   \<and> (\<exists>fs. createTheme duration rest spec (Some theme) = Inr fs)
   \<and> createTheme duration rest spec (Some theme) \<noteq> Inl noThemeProvider"
  by (simp add: createTheme_def Let_def)

text \<open>
  C7. A spec callback returning a bare entry gives the same result as one returning that
  entry wrapped in a one-element array, for every theme, present or absent.
\<close>

theorem singleton_normalization:
  "createTheme duration rest (\<lambda>ob. Bare (e ob)) theme
   = createTheme duration rest (\<lambda>ob. Arr [e ob]) theme"
  by (simp add: createTheme_def specDescriptor_def split: option.split)

text \<open>
  C9. For every theme with \<^verbatim>\<open>borderRadius.x = 8\<close>, the accessor call
  \<^verbatim>\<open>o.borderRadius('x')\<close> renders \<^verbatim>\<open>{ borderRadius: "8px" }\<close> over every Context and
  contributes nothing to the Context; resolved alone it gives that fragment and the empty
  transition.
\<close>

theorem borderRadius_px:
  "Theme.borderRadius theme ''x'' = 8 \<Longrightarrow>
     operation (O.borderRadius (builder rest theme) ''x'') c
       = [(''borderRadius'', CssString ''8px'')]
     \<and> context_of (O.borderRadius (builder rest theme) ''x'') = Map.empty
     \<and> createTheme duration rest (\<lambda>ob. Bare (JVal (O.borderRadius ob ''x''))) (Some theme)
         = Inr [[(''borderRadius'', CssString ''8px'')], [(''transition'', CssString '''')]]"
  by (simp add: createTheme_Some builder_def createBorderRadiusCss_def createInternal_def px_8
      collectContext_Cons collectContext_Nil requestedProperties_def transition_def)

theorem borderRadius_px_witness:
  "Theme.borderRadius \<lparr> Theme.borderRadius = (\<lambda>_. 0)(''x'' := 8) \<rparr> ''x'' = 8
   \<and> createTheme ''0.2s'' (\<lambda>_ :: unit Theme_scheme. ())
        (\<lambda>ob. Bare (JVal (O.borderRadius ob ''x'')))
        (Some \<lparr> Theme.borderRadius = (\<lambda>_. 0)(''x'' := 8) \<rparr>)
       = Inr [[(''borderRadius'', CssString ''8px'')], [(''transition'', CssString '''')]]"
  using borderRadius_px
    [where theme = "\<lparr> Theme.borderRadius = (\<lambda>_. 0)(''x'' := 8) \<rparr>"
       and rest = "\<lambda>_ :: unit Theme_scheme. ()" and duration = "''0.2s''" and c = Map.empty]
  by simp

text \<open>
  C10. With a theme present, a spec callback returning only blank values, as a list or as a
  single blank, gives the one-element list whose fragment is \<^verbatim>\<open>{ transition: "" }\<close>.
\<close>

theorem only_blanks:
  "(\<forall>e \<in> set (asArray (spec (builder rest theme))). isBlank e) \<Longrightarrow>
     createTheme duration rest spec (Some theme) = Inr [[(''transition'', CssString '''')]]"
  by (simp add: createTheme_Some dropBlanks_blank collectContext_Nil requestedProperties_def
      transition_def)

theorem only_blanks_witness:
  "isBlank (JNull :: Internal js) \<and> isBlank (JFalse :: Internal js)
   \<and> isBlank (JUndefined :: Internal js)
   \<and> createTheme ''0.2s'' (\<lambda>_ :: unit Theme_scheme. ()) (\<lambda>_. Arr [JNull, JFalse, JUndefined])
        (Some \<lparr> Theme.borderRadius = \<lambda>_. 8 \<rparr>)
       = Inr [[(''transition'', CssString '''')]]
   \<and> createTheme ''0.2s'' (\<lambda>_ :: unit Theme_scheme. ()) (\<lambda>_. Bare JFalse)
        (Some \<lparr> Theme.borderRadius = \<lambda>_. 8 \<rparr>)
       = Inr [[(''transition'', CssString '''')]]"
  using only_blanks
    [where spec = "\<lambda>_. Arr [JNull, JFalse, JUndefined]" and duration = "''0.2s''"
       and rest = "\<lambda>_ :: unit Theme_scheme. ()" and theme = "\<lparr> Theme.borderRadius = \<lambda>_. 8 \<rparr>"]
    only_blanks
    [where spec = "\<lambda>_. Bare JFalse" and duration = "''0.2s''"
       and rest = "\<lambda>_ :: unit Theme_scheme. ()" and theme = "\<lparr> Theme.borderRadius = \<lambda>_. 8 \<rparr>"]
  by simp

end
